theory Spec2Isabelle
  imports Main
begin

section \<open>Settings of the backend: \<open>app/core/config.py\<close>\<close>

text \<open>
  The module does two things when it is imported: it calls
  \<open>load_dotenv(".env", override=True)\<close> (line 8) and it builds \<open>settings = Settings()\<close>
  (line 64). \<open>Settings\<close> is a declarative class: 21 typed fields with defaults, one
  validator \<open>assemble_cors_origins\<close> that runs before the type of \<open>ALLOWED_HOSTS\<close> is
  checked, and a \<open>Config\<close> that makes names case sensitive and names \<open>.env\<close> as the
  environment file.

  Strings are \<open>char list\<close>; a \<open>char\<close> stands for a code point below 256, so the model
  covers the strings made of such code points.
\<close>

subsection \<open>Python values and the two string methods the validator calls\<close>

text \<open>
  The validator runs in mode \<open>before\<close>: it sees the raw value, of any shape. The shapes
  modelled are \<open>None\<close>, booleans, integers, strings, lists and dictionaries.
\<close>

datatype pyval =
    PNone
  | PBool bool
  | PInt int
  | PStr string
  | PList "pyval list"
  | PDict "(string \<times> pyval) list"

text \<open>
  \<open>str.isspace\<close> on one character, for the code points below 256: tab to carriage
  return, the four separators 28 to 31, the space, NEL (133) and the no-break space (160).
\<close>

definition isspace :: "char \<Rightarrow> bool" where
  "isspace c =
     (let n = (of_char c :: nat)
      in (9 \<le> n \<and> n \<le> 13) \<or> (28 \<le> n \<and> n \<le> 32) \<or> n = 133 \<or> n = 160)"

text \<open>\<open>s.strip()\<close>: the whitespace at both ends goes, the rest stays.\<close>

definition strip :: "string \<Rightarrow> string" where
  "strip s = rev (dropWhile isspace (rev (dropWhile isspace s)))"

text \<open>
  \<open>s.split(sep)\<close> for a one-character separator, as a scan from the left: \<open>cur\<close> holds
  the piece being read, in reverse. Every separator closes a piece, and the end of the
  string closes the last one, so the result is never empty (\<open>"".split(",")\<close> is \<open>[""]\<close>).
\<close>

fun split_scan :: "char \<Rightarrow> string \<Rightarrow> string \<Rightarrow> string list" where
  "split_scan sep cur [] = [rev cur]"
| "split_scan sep cur (c # cs) =
     (if c = sep then rev cur # split_scan sep [] cs else split_scan sep (c # cur) cs)"

definition str_split :: "string \<Rightarrow> char \<Rightarrow> string list" where
  "str_split s sep = split_scan sep [] s"

subsection \<open>The validator of \<open>ALLOWED_HOSTS\<close> (lines 50 to 57)\<close>

text \<open>
  \<^verbatim>\<open>
  def assemble_cors_origins(cls, v):
      if isinstance(v, str):
          return [i.strip() for i in v.split(",") if i.strip()]
      elif isinstance(v, list):
          return v
      return ["*"]
  \<close>
\<close>

fun assemble_cors_origins :: "pyval \<Rightarrow> pyval" where
  "assemble_cors_origins (PStr v) =
     PList [PStr (strip i). i \<leftarrow> str_split v (CHR '',''), strip i \<noteq> []]"
| "assemble_cors_origins (PList v) = PList v"
| "assemble_cors_origins _ = PList [PStr ''*'']"

subsection \<open>The environment and the environment file\<close>

type_synonym environ = "string \<rightharpoonup> string"

text \<open>
  The file \<open>.env\<close> is represented by the dictionary of bindings that the dotenv library
  reads from it (reading the file is the library's work); \<open>None\<close> is the absent file.
\<close>

type_synonym dotenv = "(string \<rightharpoonup> string) option"

text \<open>
  \<open>load_dotenv(path, override)\<close> writes the bindings of the file into the process
  environment. A name that the environment already has is kept, unless \<open>override\<close> is set.
\<close>

definition load_dotenv :: "dotenv \<Rightarrow> bool \<Rightarrow> environ \<Rightarrow> environ" where
  "load_dotenv file override env =
     (case file of
        None \<Rightarrow> env
      | Some f \<Rightarrow> if override then env ++ f else f ++ env)"

subsection \<open>The class \<open>Settings\<close> (lines 11 to 61)\<close>

text \<open>
  \<open>ALLOWED_HOSTS\<close> is declared \<open>Union[List[str], str]\<close>: the field can hold a list of
  strings or one raw string.
\<close>

datatype hosts = HostList "string list" | HostStr string

record Settings =
  PROJECT_NAME :: string
  VERSION :: string
  DESCRIPTION :: string
  API_V1_STR :: string
  ENVIRONMENT :: string
  ALLOWED_HOSTS :: hosts
  AWS_REGION :: string
  AWS_ACCESS_KEY_ID :: "string option"
  AWS_SECRET_ACCESS_KEY :: "string option"
  DYNAMODB_TABLE_PREFIX :: string
  USERS_TABLE_NAME :: string
  COGNITO_USER_POOL_ID :: "string option"
  COGNITO_CLIENT_ID :: "string option"
  COGNITO_CLIENT_SECRET :: "string option"
  COGNITO_REGION :: string
  S3_BUCKET_NAME :: "string option"
  S3_REGION :: string
  JWT_SECRET_KEY :: string
  JWT_ALGORITHM :: string
  ACCESS_TOKEN_EXPIRE_MINUTES :: int
  CACHE_TTL :: int

text \<open>
  Building \<open>Settings()\<close> raises one kind of error: a value does not fit the declared type
  of its field (the validation error of the settings library; the specification calls it
  \<open>ConfigError\<close>).
\<close>

datatype error = ConfigError

text \<open>
  The names of the 21 fields, which are the names of the environment variables
  (\<open>case_sensitive = True\<close>: a name is looked up as it is written).
\<close>

definition field_names :: "string list" where
  "field_names =
     [''PROJECT_NAME'', ''VERSION'', ''DESCRIPTION'', ''API_V1_STR'', ''ENVIRONMENT'',
      ''ALLOWED_HOSTS'', ''AWS_REGION'', ''AWS_ACCESS_KEY_ID'', ''AWS_SECRET_ACCESS_KEY'',
      ''DYNAMODB_TABLE_PREFIX'', ''USERS_TABLE_NAME'', ''COGNITO_USER_POOL_ID'',
      ''COGNITO_CLIENT_ID'', ''COGNITO_CLIENT_SECRET'', ''COGNITO_REGION'',
      ''S3_BUCKET_NAME'', ''S3_REGION'', ''JWT_SECRET_KEY'', ''JWT_ALGORITHM'',
      ''ACCESS_TOKEN_EXPIRE_MINUTES'', ''CACHE_TTL'']"

text \<open>
  Where \<open>Settings()\<close> finds the value of a field: in the process environment first, then
  in the file that \<open>Config.env_file\<close> names; a field found in neither keeps its default.
\<close>

definition lookup :: "dotenv \<Rightarrow> environ \<Rightarrow> string \<Rightarrow> string option" where
  "lookup file env name =
     (case env name of
        Some s \<Rightarrow> Some s
      | None \<Rightarrow> (case file of None \<Rightarrow> None | Some f \<Rightarrow> f name))"

text \<open>A field declared \<open>str\<close>: every environment value is a string already.\<close>

definition str_field :: "dotenv \<Rightarrow> environ \<Rightarrow> string \<Rightarrow> string \<Rightarrow> string" where
  "str_field file env name dflt =
     (case lookup file env name of None \<Rightarrow> dflt | Some s \<Rightarrow> s)"

text \<open>A field declared \<open>Optional[str] = None\<close>.\<close>

definition opt_field :: "dotenv \<Rightarrow> environ \<Rightarrow> string \<Rightarrow> string option" where
  "opt_field file env name = lookup file env name"

text \<open>
  Modelled from the spec: the value of a string of decimal digits, for the coercion
  below. \<open>digits_value\<close> reads the digits from the left; a character that is not a
  digit stops it with \<open>None\<close>.
\<close>

definition digit_of :: "char \<Rightarrow> nat option" where
  "digit_of c =
     (let n = (of_char c :: nat) in if 48 \<le> n \<and> n \<le> 57 then Some (n - 48) else None)"

fun digits_value :: "nat \<Rightarrow> string \<Rightarrow> nat option" where
  "digits_value acc [] = Some acc"
| "digits_value acc (c # cs) =
     (case digit_of c of None \<Rightarrow> None | Some d \<Rightarrow> digits_value (10 * acc + d) cs)"

definition parse_nat :: "string \<Rightarrow> nat option" where
  "parse_nat s = (if s = [] then None else digits_value 0 s)"

text \<open>
  Modelled from the spec: the coercion of an environment string to a field declared
  \<open>int\<close>, which is the settings library's and not part of this repository. The
  specification says: parse the environment string as a base-10 integer; fail if it is
  non-numeric. Here a base-10 integer is an optional sign followed by one or more
  decimal digits.
\<close>

definition parse_int :: "string \<Rightarrow> int option" where
  "parse_int s =
     (case s of
        [] \<Rightarrow> None
      | c # cs \<Rightarrow>
          if c = CHR ''-'' then map_option (\<lambda>n. - int n) (parse_nat cs)
          else if c = CHR ''+'' then map_option int (parse_nat cs)
          else map_option int (parse_nat s))"

definition int_field :: "dotenv \<Rightarrow> environ \<Rightarrow> string \<Rightarrow> int \<Rightarrow> error + int" where
  "int_field file env name dflt =
     (case lookup file env name of
        None \<Rightarrow> Inr dflt
      | Some s \<Rightarrow> (case parse_int s of None \<Rightarrow> Inl ConfigError | Some n \<Rightarrow> Inr n))"

text \<open>
  \<open>ALLOWED_HOSTS\<close> has a list in its type, so the settings library first tries to
  decode the environment string as structured data (JSON), and keeps the string itself
  when it does not decode (the union has the member \<open>str\<close>). The decoder is the
  library's; it is a parameter here: \<open>None\<close> means that the string does not decode.
\<close>

type_synonym decoder = "string \<Rightarrow> pyval option"

definition prepare_field_value :: "decoder \<Rightarrow> string \<Rightarrow> pyval" where
  "prepare_field_value dec s = (case dec s of Some v \<Rightarrow> v | None \<Rightarrow> PStr s)"

text \<open>
  After the validator, the value is checked against the declared type
  \<open>Union[List[str], str]\<close>: a list whose elements are all strings, or a string.
\<close>

fun as_str :: "pyval \<Rightarrow> string option" where
  "as_str (PStr s) = Some s"
| "as_str _ = None"

fun check_hosts :: "pyval \<Rightarrow> error + hosts" where
  "check_hosts (PStr s) = Inr (HostStr s)"
| "check_hosts (PList vs) =
     (case those (map as_str vs) of
        None \<Rightarrow> Inl ConfigError
      | Some xs \<Rightarrow> Inr (HostList xs))"
| "check_hosts _ = Inl ConfigError"

text \<open>A raw value given for \<open>ALLOWED_HOSTS\<close>: the validator, then the type.\<close>

definition hosts_of_raw :: "pyval \<Rightarrow> error + hosts" where
  "hosts_of_raw v = check_hosts (assemble_cors_origins v)"

text \<open>The default \<open>["*"]\<close> is taken as it is: the validator runs on given values only.\<close>

definition hosts_field :: "decoder \<Rightarrow> dotenv \<Rightarrow> environ \<Rightarrow> error + hosts" where
  "hosts_field dec file env =
     (case lookup file env ''ALLOWED_HOSTS'' of
        None \<Rightarrow> Inr (HostList [''*''])
      | Some s \<Rightarrow> hosts_of_raw (prepare_field_value dec s))"

text \<open>
  \<open>Settings()\<close>: every field from the environment or its default. The call raises when
  one of the three fields that can fail does. A name of the file that belongs to no
  field is read by no field; what else the settings library does with such a name is
  outside this model.
\<close>

definition Settings_init :: "decoder \<Rightarrow> dotenv \<Rightarrow> environ \<Rightarrow> error + Settings" where
  "Settings_init dec file env =
     (case hosts_field dec file env of
        Inl e \<Rightarrow> Inl e
      | Inr allowed \<Rightarrow>
     (case int_field file env ''ACCESS_TOKEN_EXPIRE_MINUTES'' 30 of
        Inl e \<Rightarrow> Inl e
      | Inr minutes \<Rightarrow>
     (case int_field file env ''CACHE_TTL'' 300 of
        Inl e \<Rightarrow> Inl e
      | Inr ttl \<Rightarrow>
          Inr \<lparr> PROJECT_NAME = str_field file env ''PROJECT_NAME'' ''FastAPI AWS Boilerplate'',
                VERSION = str_field file env ''VERSION'' ''1.0.0'',
                DESCRIPTION =
                  str_field file env ''DESCRIPTION'' ''FastAPI application with AWS services'',
                API_V1_STR = str_field file env ''API_V1_STR'' ''/api/v1'',
                ENVIRONMENT = str_field file env ''ENVIRONMENT'' ''development'',
                ALLOWED_HOSTS = allowed,
                AWS_REGION = str_field file env ''AWS_REGION'' ''us-east-1'',
                AWS_ACCESS_KEY_ID = opt_field file env ''AWS_ACCESS_KEY_ID'',
                AWS_SECRET_ACCESS_KEY = opt_field file env ''AWS_SECRET_ACCESS_KEY'',
                DYNAMODB_TABLE_PREFIX =
                  str_field file env ''DYNAMODB_TABLE_PREFIX'' ''fastapi-app'',
                USERS_TABLE_NAME = str_field file env ''USERS_TABLE_NAME'' ''fastapi-app-users'',
                COGNITO_USER_POOL_ID = opt_field file env ''COGNITO_USER_POOL_ID'',
                COGNITO_CLIENT_ID = opt_field file env ''COGNITO_CLIENT_ID'',
                COGNITO_CLIENT_SECRET = opt_field file env ''COGNITO_CLIENT_SECRET'',
                COGNITO_REGION = str_field file env ''COGNITO_REGION'' ''us-east-1'',
                S3_BUCKET_NAME = opt_field file env ''S3_BUCKET_NAME'',
                S3_REGION = str_field file env ''S3_REGION'' ''us-east-1'',
                JWT_SECRET_KEY =
                  str_field file env ''JWT_SECRET_KEY'' ''your-secret-key-change-this'',
                JWT_ALGORITHM = str_field file env ''JWT_ALGORITHM'' ''HS256'',
                ACCESS_TOKEN_EXPIRE_MINUTES = minutes,
                CACHE_TTL = ttl \<rparr>)))"

text \<open>
  The module body, which the specification calls \<open>load()\<close>: the file is written into
  the environment with \<open>override=True\<close>, then the settings are built. The environment
  is process state, so the changed environment is returned with the result.
\<close>

definition load :: "decoder \<Rightarrow> dotenv \<Rightarrow> environ \<Rightarrow> (error + Settings) \<times> environ" where
  "load dec file env =
     (let env' = load_dotenv file True env in (Settings_init dec file env', env'))"

text \<open>The documented defaults (section 3 of the specification).\<close>

definition default_settings :: Settings where
  "default_settings =
     \<lparr> PROJECT_NAME = ''FastAPI AWS Boilerplate'',
       VERSION = ''1.0.0'',
       DESCRIPTION = ''FastAPI application with AWS services'',
       API_V1_STR = ''/api/v1'',
       ENVIRONMENT = ''development'',
       ALLOWED_HOSTS = HostList [''*''],
       AWS_REGION = ''us-east-1'',
       AWS_ACCESS_KEY_ID = None,
       AWS_SECRET_ACCESS_KEY = None,
       DYNAMODB_TABLE_PREFIX = ''fastapi-app'',
       USERS_TABLE_NAME = ''fastapi-app-users'',
       COGNITO_USER_POOL_ID = None,
       COGNITO_CLIENT_ID = None,
       COGNITO_CLIENT_SECRET = None,
       COGNITO_REGION = ''us-east-1'',
       S3_BUCKET_NAME = None,
       S3_REGION = ''us-east-1'',
       JWT_SECRET_KEY = ''your-secret-key-change-this'',
       JWT_ALGORITHM = ''HS256'',
       ACCESS_TOKEN_EXPIRE_MINUTES = 30,
       CACHE_TTL = 300 \<rparr>"

subsection \<open>Vocabulary of the statements\<close>

text \<open>\<open>sep.join(pieces)\<close>, to say what splitting is: the inverse of joining.\<close>

fun join :: "char \<Rightarrow> string list \<Rightarrow> string" where
  "join sep [] = []"
| "join sep [p] = p"
| "join sep (p # q # ps) = p @ sep # join sep (q # ps)"

text \<open>
  The invariant that section 3 of the specification states for \<open>ALLOWED_HOSTS\<close>: an
  ordered sequence of non-empty strings, not a raw string.
\<close>

definition nonempty_host_list :: "hosts \<Rightarrow> bool" where
  "nonempty_host_list h =
     (case h of HostList xs \<Rightarrow> list_all (\<lambda>x. x \<noteq> []) xs | HostStr s \<Rightarrow> False)"

text \<open>The decimal numeral of a natural number, to say what a base-10 integer is.\<close>

fun decimal :: "nat \<Rightarrow> string" where
  "decimal n =
     (if n < 10 then [char_of (48 + n)]
      else decimal (n div 10) @ [char_of (48 + n mod 10)])"

section \<open>Splitting and trimming\<close>

lemma split_scan_ne: "split_scan sep cur s \<noteq> []"
  by (induction s arbitrary: cur) auto

lemma join_Cons: "ps \<noteq> [] \<Longrightarrow> join sep (p # ps) = p @ sep # join sep ps"
  by (cases ps) auto

lemma split_scan_join: "join sep (split_scan sep cur s) = rev cur @ s"
  by (induction s arbitrary: cur) (auto simp: join_Cons split_scan_ne)

lemma split_scan_nosep:
  "sep \<notin> set cur \<Longrightarrow> p \<in> set (split_scan sep cur s) \<Longrightarrow> sep \<notin> set p"
proof (induction s arbitrary: cur)
  case Nil
  then show ?case by simp
next
  case (Cons c cs)
  show ?case
  proof (cases "c = sep")
    case True
    with Cons.prems have "p = rev cur \<or> p \<in> set (split_scan sep [] cs)" by simp
    then show ?thesis using Cons.prems(1) Cons.IH [of "[]"] by auto
  next
    case False
    with Cons.prems have "p \<in> set (split_scan sep (c # cur) cs)" by simp
    then show ?thesis using Cons.prems(1) False Cons.IH [of "c # cur"] by auto
  qed
qed

lemma split_scan_subset: "p \<in> set (split_scan sep cur s) \<Longrightarrow> set p \<subseteq> set cur \<union> set s"
proof (induction s arbitrary: cur)
  case Nil
  then show ?case by simp
next
  case (Cons c cs)
  show ?case
  proof (cases "c = sep")
    case True
    with Cons.prems have "p = rev cur \<or> p \<in> set (split_scan sep [] cs)" by simp
    then show ?thesis using Cons.IH [of "[]"] by auto
  next
    case False
    with Cons.prems have "p \<in> set (split_scan sep (c # cur) cs)" by simp
    then show ?thesis using Cons.IH [of "c # cur"] by auto
  qed
qed

text \<open>A stretch without separator only grows the piece being read.\<close>

lemma split_scan_append:
  "sep \<notin> set p \<Longrightarrow> split_scan sep cur (p @ s) = split_scan sep (rev p @ cur) s"
  by (induction p arbitrary: cur) auto

lemma split_scan_unique:
  "ps \<noteq> [] \<Longrightarrow> \<forall>p\<in>set ps. sep \<notin> set p \<Longrightarrow>
   split_scan sep cur (join sep ps) = (rev cur @ hd ps) # tl ps"
proof (induction ps arbitrary: cur)
  case Nil
  then show ?case by simp
next
  case (Cons p ps)
  show ?case
  proof (cases ps)
    case Nil
    then show ?thesis using Cons.prems split_scan_append [of sep p cur "[]"] by simp
  next
    case (Cons q qs)
    have "split_scan sep [] (join sep ps) = hd ps # tl ps"
      using Cons.IH [of "[]"] Cons.prems Cons by simp
    then show ?thesis
      using Cons Cons.prems split_scan_append [of sep p cur "sep # join sep (q # qs)"]
      by simp
  qed
qed

lemma str_split_join: "join sep (str_split s sep) = s"
  by (simp add: str_split_def split_scan_join)

lemma str_split_nosep: "p \<in> set (str_split s sep) \<Longrightarrow> sep \<notin> set p"
  using split_scan_nosep [of sep "[]" p s] by (simp add: str_split_def)

lemma str_split_subset: "p \<in> set (str_split s sep) \<Longrightarrow> set p \<subseteq> set s"
  using split_scan_subset [of p sep "[]" s] by (simp add: str_split_def)

lemma str_split_unique:
  "ps \<noteq> [] \<Longrightarrow> \<forall>p\<in>set ps. sep \<notin> set p \<Longrightarrow> str_split (join sep ps) sep = ps"
  using split_scan_unique [of ps sep "[]"] by (simp add: str_split_def)

lemma dropWhile_all: "list_all P xs \<Longrightarrow> dropWhile P xs = []"
  by (simp add: list_all_iff)

lemma dropWhile_none: "\<forall>x\<in>set (dropWhile P xs). P x \<Longrightarrow> dropWhile P xs = []"
  by (metis hd_dropWhile hd_in_set)

lemma strip_all_space: "list_all isspace s \<Longrightarrow> strip s = []"
  by (simp add: strip_def dropWhile_all)

lemma strip_empty_iff: "strip s = [] \<longleftrightarrow> list_all isspace s"
proof
  assume "strip s = []"
  then have "dropWhile isspace (rev (dropWhile isspace s)) = []"
    by (simp add: strip_def)
  then have "\<forall>x\<in>set (dropWhile isspace s). isspace x"
    by (simp add: dropWhile_eq_Nil_conv)
  then have "dropWhile isspace s = []" by (rule dropWhile_none)
  then show "list_all isspace s" by (simp add: list_all_iff dropWhile_eq_Nil_conv)
next
  assume "list_all isspace s"
  then show "strip s = []" by (rule strip_all_space)
qed

lemma strip_decomp: "\<exists>l r. s = l @ strip s @ r \<and> list_all isspace l \<and> list_all isspace r"
proof -
  let ?m = "dropWhile isspace s"
  have 1: "s = takeWhile isspace s @ ?m" by simp
  have 2: "?m = strip s @ rev (takeWhile isspace (rev ?m))"
    unfolding strip_def
    by (metis rev_append rev_rev_ident takeWhile_dropWhile_id)
  have 3: "list_all isspace (takeWhile isspace s)"
    by (simp add: list_all_iff) (meson set_takeWhileD)
  have 4: "list_all isspace (rev (takeWhile isspace (rev ?m)))"
    by (simp add: list_all_iff) (meson set_takeWhileD)
  show ?thesis using 1 2 3 4 by metis
qed

lemma strip_ends:
  "strip s \<noteq> [] \<Longrightarrow> \<not> isspace (hd (strip s)) \<and> \<not> isspace (last (strip s))"
proof -
  assume ne: "strip s \<noteq> []"
  let ?m = "dropWhile isspace s"
  let ?r = "dropWhile isspace (rev ?m)"
  have rne: "?r \<noteq> []" using ne by (simp add: strip_def)
  have l: "\<not> isspace (last (strip s))"
    using rne hd_dropWhile [of isspace "rev ?m"] by (simp add: strip_def last_rev)
  have mne: "?m \<noteq> []"
  proof
    assume a: "?m = []"
    have "?r = []" unfolding a by simp
    with rne show False by simp
  qed
  have hm: "\<not> isspace (hd ?m)" using mne hd_dropWhile by metis
  have "rev ?m = takeWhile isspace (rev ?m) @ ?r" by simp
  then have "?m = strip s @ rev (takeWhile isspace (rev ?m))"
    unfolding strip_def by (metis rev_append rev_rev_ident)
  then have "hd ?m = hd (strip s)" using ne by (metis hd_append2)
  with hm l show ?thesis by simp
qed

section \<open>The validator\<close>

text \<open>The string branch of the validator, without the comprehension.\<close>

lemma assemble_str:
  "assemble_cors_origins (PStr s) =
     PList (map PStr (filter (\<lambda>p. p \<noteq> []) (map strip (str_split s (CHR '','')))))"
proof -
  have "[PStr (strip i). i \<leftarrow> xs, strip i \<noteq> []] =
        map PStr (filter (\<lambda>p. p \<noteq> []) (map strip xs))" for xs
    by (induction xs) auto
  then show ?thesis by simp
qed

text \<open>
  C1. For every raw string, the validator splits it on the comma, trims the whitespace
  around each piece, drops the pieces that are empty after trimming and keeps the others
  in their order. Splitting is the inverse of joining with commas: the pieces contain no
  comma, joined they give the string back, and no other list of comma-free pieces does.
  Trimming removes whitespace at both ends and nothing else: what is left neither starts
  nor ends with whitespace. For \<open>"a, b ,,c"\<close> the result is \<open>["a", "b", "c"]\<close>.
\<close>

theorem C1_string_split_trim_filter:
  "assemble_cors_origins (PStr s) =
     PList (map PStr (filter (\<lambda>p. p \<noteq> []) (map strip (str_split s (CHR '','')))))
   \<and> join (CHR '','') (str_split s (CHR '','')) = s
   \<and> (\<forall>p \<in> set (str_split s (CHR '','')). CHR '','' \<notin> set p)
   \<and> (\<forall>ps. ps \<noteq> [] \<and> (\<forall>p \<in> set ps. CHR '','' \<notin> set p) \<and> join (CHR '','') ps = s
          \<longrightarrow> str_split s (CHR '','') = ps)
   \<and> (\<forall>p. \<exists>l r. p = l @ strip p @ r \<and> list_all isspace l \<and> list_all isspace r)
   \<and> (\<forall>p. strip p \<noteq> [] \<longrightarrow> \<not> isspace (hd (strip p)) \<and> \<not> isspace (last (strip p)))
   \<and> assemble_cors_origins (PStr ''a, b ,,c'') = PList [PStr ''a'', PStr ''b'', PStr ''c'']"
proof (intro conjI allI impI ballI)
  show "assemble_cors_origins (PStr s) =
     PList (map PStr (filter (\<lambda>p. p \<noteq> []) (map strip (str_split s (CHR '','')))))"
    by (rule assemble_str)
  show "join (CHR '','') (str_split s (CHR '','')) = s" by (rule str_split_join)
  show "CHR '','' \<notin> set p" if "p \<in> set (str_split s (CHR '',''))" for p
    using that by (rule str_split_nosep)
  show "str_split s (CHR '','') = ps"
    if "ps \<noteq> [] \<and> (\<forall>p \<in> set ps. CHR '','' \<notin> set p) \<and> join (CHR '','') ps = s" for ps
    using that str_split_unique [of ps "CHR '',''"] by auto
  show "\<exists>l r. p = l @ strip p @ r \<and> list_all isspace l \<and> list_all isspace r" for p
    by (rule strip_decomp)
  show "\<not> isspace (hd (strip p))" if "strip p \<noteq> []" for p using that strip_ends by blast
  show "\<not> isspace (last (strip p))" if "strip p \<noteq> []" for p using that strip_ends by blast
  show "assemble_cors_origins (PStr ''a, b ,,c'') = PList [PStr ''a'', PStr ''b'', PStr ''c'']"
    by (simp add: str_split_def strip_def isspace_def)
qed

theorem C1_string_split_trim_filter_witness:
  "assemble_cors_origins (PStr '' x ,,y, '') = PList [PStr ''x'', PStr ''y'']
   \<and> str_split '' x ,,y, '' (CHR '','') = ['' x '', '''', ''y'', '' '']
   \<and> join (CHR '','') ['' x '', '''', ''y'', '' ''] = '' x ,,y, ''
   \<and> CHR '','' \<notin> set '' x ''
   \<and> strip '' x '' = ''x'' \<and> strip '' '' = '''' \<and> \<not> isspace (CHR ''x'')"
  using C1_string_split_trim_filter [of "'' x ,,y, ''"]
  by (simp add: str_split_def strip_def isspace_def)

text \<open>
  C3. A raw value that is already a list is returned as it is: same elements, same
  order, nothing trimmed and nothing dropped.
\<close>

theorem C3_list_unchanged: "assemble_cors_origins (PList xs) = PList xs"
  by simp

text \<open>
  C4. A raw value that is neither a string nor a list (a number, for one) gives the
  fallback \<open>["*"]\<close>; the validator has no failing branch.
\<close>

theorem C4_other_shape_fallback:
  "(\<forall>s. v \<noteq> PStr s) \<Longrightarrow> (\<forall>l. v \<noteq> PList l) \<Longrightarrow>
   assemble_cors_origins v = PList [PStr ''*'']"
  by (cases v) simp_all

theorem C4_other_shape_fallback_witness:
  "assemble_cors_origins (PInt 42) = PList [PStr ''*'']"
  using C4_other_shape_fallback [of "PInt 42"] by simp

text \<open>
  C9. The validator is idempotent: every result is a list, and a list is returned as it
  is.
\<close>

theorem C9_validator_idempotent:
  "assemble_cors_origins (assemble_cors_origins v) = assemble_cors_origins v"
  by (cases v) simp_all

section \<open>The environment and the settings\<close>

text \<open>
  After \<open>load_dotenv\<close> with \<open>override=True\<close> the environment holds every binding of the
  file, so the second place where \<open>Settings()\<close> looks adds nothing.
\<close>

lemma lookup_after_load_dotenv:
  "lookup fl (load_dotenv fl True env) n = load_dotenv fl True env n"
  by (cases fl) (auto simp: lookup_def load_dotenv_def map_add_def split: option.splits)

lemma load_dotenv_idem:
  "load_dotenv fl True (load_dotenv fl True env) = load_dotenv fl True env"
  by (cases fl) (auto simp: load_dotenv_def map_add_def split: option.splits)

lemma load_dotenv_file_wins:
  "f n = Some v \<Longrightarrow> load_dotenv (Some f) True env n = Some v"
  by (simp add: load_dotenv_def)

lemma lookup_None_file: "lookup None env n = env n"
  by (simp add: lookup_def split: option.splits)

lemma fst_load: "fst (load dec fl env) = Settings_init dec fl (load_dotenv fl True env)"
  by (simp add: load_def Let_def)

lemma snd_load: "snd (load dec fl env) = load_dotenv fl True env"
  by (simp add: load_def Let_def)

lemma error_only: "(e :: error) = ConfigError"
  by (cases e) simp

lemma Settings_init_Inr:
  assumes "Settings_init dec fl env = Inr st"
  shows "hosts_field dec fl env = Inr (ALLOWED_HOSTS st)"
    and "int_field fl env ''ACCESS_TOKEN_EXPIRE_MINUTES'' 30
           = Inr (ACCESS_TOKEN_EXPIRE_MINUTES st)"
    and "int_field fl env ''CACHE_TTL'' 300 = Inr (CACHE_TTL st)"
    and "AWS_REGION st = str_field fl env ''AWS_REGION'' ''us-east-1''"
  using assms by (auto simp: Settings_init_def split: sum.splits)

lemma Settings_init_fails_iff:
  "(\<exists>e. Settings_init dec fl env = Inl e) \<longleftrightarrow>
     (\<exists>e. hosts_field dec fl env = Inl e)
     \<or> (\<exists>e. int_field fl env ''ACCESS_TOKEN_EXPIRE_MINUTES'' 30 = Inl e)
     \<or> (\<exists>e. int_field fl env ''CACHE_TTL'' 300 = Inl e)"
  by (auto simp: Settings_init_def split: sum.splits)

lemma int_field_fails_iff:
  "int_field fl env name dflt = Inl ConfigError \<longleftrightarrow>
     (\<exists>s. lookup fl env name = Some s \<and> parse_int s = None)"
  by (auto simp: int_field_def split: option.splits)

lemma int_field_value:
  "lookup fl env name = Some s \<Longrightarrow> parse_int s = Some k \<Longrightarrow>
   int_field fl env name dflt = Inr k"
  by (simp add: int_field_def)

lemma hosts_field_after_load:
  "load_dotenv fl True env ''ALLOWED_HOSTS'' = Some s \<Longrightarrow>
   hosts_field dec fl (load_dotenv fl True env) = hosts_of_raw (prepare_field_value dec s)"
  by (simp add: hosts_field_def lookup_after_load_dotenv)

subsection \<open>Decimal numerals parse to their value\<close>

declare decimal.simps [simp del]

lemma digit_of_char_of: "d < 10 \<Longrightarrow> digit_of (char_of (48 + d)) = Some d"
  by (simp add: digit_of_def)

lemma digits_value_snoc:
  "digits_value acc (xs @ [c]) =
     (case digits_value acc xs of
        None \<Rightarrow> None
      | Some a \<Rightarrow> (case digit_of c of None \<Rightarrow> None | Some d \<Rightarrow> Some (10 * a + d)))"
  by (induction xs arbitrary: acc) (auto split: option.splits)

lemma decimal_ne: "decimal n \<noteq> []"
  by (subst decimal.simps) simp

lemma digits_value_decimal: "digits_value 0 (decimal n) = Some n"
proof (induction n rule: decimal.induct)
  case (1 n)
  show ?case
  proof (cases "n < 10")
    case True
    then show ?thesis by (subst decimal.simps) (simp add: digit_of_char_of)
  next
    case False
    then have "digits_value 0 (decimal (n div 10)) = Some (n div 10)" using 1 by simp
    then show ?thesis using False
      by (subst decimal.simps) (simp add: digits_value_snoc digit_of_char_of)
  qed
qed

lemma hd_decimal_digit: "digit_of (hd (decimal n)) \<noteq> None"
proof (induction n rule: decimal.induct)
  case (1 n)
  show ?case
  proof (cases "n < 10")
    case True
    then show ?thesis by (subst decimal.simps) (simp add: digit_of_char_of)
  next
    case False
    then show ?thesis using 1 decimal_ne [of "n div 10"]
      by (subst decimal.simps) simp
  qed
qed

lemma parse_int_decimal: "parse_int (decimal n) = Some (int n)"
proof -
  obtain c cs where d: "decimal n = c # cs"
    using decimal_ne [of n] by (cases "decimal n") auto
  have "digit_of c \<noteq> None" using hd_decimal_digit [of n] d by simp
  then have "c \<noteq> CHR ''-''" "c \<noteq> CHR ''+''" by (auto simp: digit_of_def)
  then show ?thesis
    using digits_value_decimal [of n] d by (simp add: parse_int_def parse_nat_def)
qed

lemma parse_int_neg_decimal: "parse_int (CHR ''-'' # decimal n) = Some (- int n)"
  using digits_value_decimal [of n] decimal_ne [of n]
  by (simp add: parse_int_def parse_nat_def)

lemma parse_int_45: "parse_int ''45'' = Some 45"
  by (simp add: parse_int_def parse_nat_def digit_of_def)

lemma parse_int_not_a_number: "parse_int ''not-a-number'' = None"
  by (simp add: parse_int_def parse_nat_def digit_of_def)

section \<open>Loading\<close>

text \<open>
  C5. When none of the 21 variables is set and there is no environment file, loading
  succeeds and every field has its documented default; the environment is left as it
  was. Variables with other names, a name in another case among them, change nothing.
\<close>

theorem C5_all_unset_gives_defaults:
  assumes "\<forall>n \<in> set field_names. env n = None"
  shows "load dec None env = (Inr default_settings, env)"
proof -
  have e: "env ''PROJECT_NAME'' = None" "env ''VERSION'' = None" "env ''DESCRIPTION'' = None"
    "env ''API_V1_STR'' = None" "env ''ENVIRONMENT'' = None" "env ''ALLOWED_HOSTS'' = None"
    "env ''AWS_REGION'' = None" "env ''AWS_ACCESS_KEY_ID'' = None"
    "env ''AWS_SECRET_ACCESS_KEY'' = None" "env ''DYNAMODB_TABLE_PREFIX'' = None"
    "env ''USERS_TABLE_NAME'' = None" "env ''COGNITO_USER_POOL_ID'' = None"
    "env ''COGNITO_CLIENT_ID'' = None" "env ''COGNITO_CLIENT_SECRET'' = None"
    "env ''COGNITO_REGION'' = None" "env ''S3_BUCKET_NAME'' = None" "env ''S3_REGION'' = None"
    "env ''JWT_SECRET_KEY'' = None" "env ''JWT_ALGORITHM'' = None"
    "env ''ACCESS_TOKEN_EXPIRE_MINUTES'' = None" "env ''CACHE_TTL'' = None"
    using assms by (simp_all add: field_names_def)
  show ?thesis
    by (simp add: load_def load_dotenv_def Settings_init_def hosts_field_def int_field_def
        str_field_def opt_field_def lookup_None_file e default_settings_def)
qed

theorem C5_all_unset_gives_defaults_witness:
  "load (\<lambda>_. None) None [''PATH'' \<mapsto> ''/usr/bin'', ''aws_region'' \<mapsto> ''eu-west-1'']
     = (Inr default_settings, [''PATH'' \<mapsto> ''/usr/bin'', ''aws_region'' \<mapsto> ''eu-west-1''])
   \<and> PROJECT_NAME default_settings = ''FastAPI AWS Boilerplate''
   \<and> ALLOWED_HOSTS default_settings = HostList [''*'']
   \<and> ACCESS_TOKEN_EXPIRE_MINUTES default_settings = 30
   \<and> CACHE_TTL default_settings = 300
   \<and> AWS_ACCESS_KEY_ID default_settings = None"
  using C5_all_unset_gives_defaults
    [of "[''PATH'' \<mapsto> ''/usr/bin'', ''aws_region'' \<mapsto> ''eu-west-1'']" "\<lambda>_. None"]
  by (simp add: field_names_def default_settings_def)

text \<open>
  What a successful \<open>Settings()\<close> holds in each of its 21 fields.
\<close>

lemma Settings_init_fields:
  assumes "Settings_init dec fl env = Inr st"
  shows "PROJECT_NAME st = str_field fl env ''PROJECT_NAME'' ''FastAPI AWS Boilerplate''
    \<and> VERSION st = str_field fl env ''VERSION'' ''1.0.0''
    \<and> DESCRIPTION st = str_field fl env ''DESCRIPTION'' ''FastAPI application with AWS services''
    \<and> API_V1_STR st = str_field fl env ''API_V1_STR'' ''/api/v1''
    \<and> ENVIRONMENT st = str_field fl env ''ENVIRONMENT'' ''development''
    \<and> hosts_field dec fl env = Inr (ALLOWED_HOSTS st)
    \<and> AWS_REGION st = str_field fl env ''AWS_REGION'' ''us-east-1''
    \<and> AWS_ACCESS_KEY_ID st = opt_field fl env ''AWS_ACCESS_KEY_ID''
    \<and> AWS_SECRET_ACCESS_KEY st = opt_field fl env ''AWS_SECRET_ACCESS_KEY''
    \<and> DYNAMODB_TABLE_PREFIX st = str_field fl env ''DYNAMODB_TABLE_PREFIX'' ''fastapi-app''
    \<and> USERS_TABLE_NAME st = str_field fl env ''USERS_TABLE_NAME'' ''fastapi-app-users''
    \<and> COGNITO_USER_POOL_ID st = opt_field fl env ''COGNITO_USER_POOL_ID''
    \<and> COGNITO_CLIENT_ID st = opt_field fl env ''COGNITO_CLIENT_ID''
    \<and> COGNITO_CLIENT_SECRET st = opt_field fl env ''COGNITO_CLIENT_SECRET''
    \<and> COGNITO_REGION st = str_field fl env ''COGNITO_REGION'' ''us-east-1''
    \<and> S3_BUCKET_NAME st = opt_field fl env ''S3_BUCKET_NAME''
    \<and> S3_REGION st = str_field fl env ''S3_REGION'' ''us-east-1''
    \<and> JWT_SECRET_KEY st = str_field fl env ''JWT_SECRET_KEY'' ''your-secret-key-change-this''
    \<and> JWT_ALGORITHM st = str_field fl env ''JWT_ALGORITHM'' ''HS256''
    \<and> int_field fl env ''ACCESS_TOKEN_EXPIRE_MINUTES'' 30
          = Inr (ACCESS_TOKEN_EXPIRE_MINUTES st)
    \<and> int_field fl env ''CACHE_TTL'' 300 = Inr (CACHE_TTL st)"
  using assms by (auto simp: Settings_init_def split: sum.splits)

lemma str_field_file_wins:
  "f n = Some v \<Longrightarrow> str_field (Some f) (load_dotenv (Some f) True env) n d = v"
  by (simp add: str_field_def lookup_after_load_dotenv load_dotenv_file_wins)

lemma opt_field_file_wins:
  "f n = Some v \<Longrightarrow> opt_field (Some f) (load_dotenv (Some f) True env) n = Some v"
  by (simp add: opt_field_def lookup_after_load_dotenv load_dotenv_file_wins)

lemma int_field_file_wins:
  "f n = Some v \<Longrightarrow> int_field (Some f) (load_dotenv (Some f) True env) n d = Inr k \<Longrightarrow>
   parse_int v = Some k"
  by (simp add: int_field_def lookup_after_load_dotenv load_dotenv_file_wins
      split: option.splits)

lemma hosts_field_file_wins:
  "f ''ALLOWED_HOSTS'' = Some v \<Longrightarrow>
   hosts_field dec (Some f) (load_dotenv (Some f) True env)
     = hosts_of_raw (prepare_field_value dec v)"
  by (simp add: hosts_field_after_load load_dotenv_file_wins)

text \<open>
  C6. A variable that the environment file defines has the file's value when the
  settings are built, whatever the process environment held for it before. So each of
  the 21 fields of the settings that are built is made from the file's value of its
  variable: a string field is that value (\<open>AWS_REGION\<close> among them), an optional field
  holds it, an integer field is the integer it parses to, and \<open>ALLOWED_HOSTS\<close> is what
  the validator and the type make of it.
\<close>

theorem C6_file_wins:
  "(f n = Some v \<longrightarrow> lookup (Some f) (snd (load dec (Some f) env)) n = Some v)
   \<and> (f ''AWS_REGION'' = Some v \<and> fst (load dec (Some f) env) = Inr st
        \<longrightarrow> AWS_REGION st = v)
   \<and> (fst (load dec (Some f) env) = Inr st \<longrightarrow>
        (f ''PROJECT_NAME'' = Some v \<longrightarrow> PROJECT_NAME st = v)
      \<and> (f ''VERSION'' = Some v \<longrightarrow> VERSION st = v)
      \<and> (f ''DESCRIPTION'' = Some v \<longrightarrow> DESCRIPTION st = v)
      \<and> (f ''API_V1_STR'' = Some v \<longrightarrow> API_V1_STR st = v)
      \<and> (f ''ENVIRONMENT'' = Some v \<longrightarrow> ENVIRONMENT st = v)
      \<and> (f ''ALLOWED_HOSTS'' = Some v
            \<longrightarrow> hosts_of_raw (prepare_field_value dec v) = Inr (ALLOWED_HOSTS st))
      \<and> (f ''AWS_ACCESS_KEY_ID'' = Some v \<longrightarrow> AWS_ACCESS_KEY_ID st = Some v)
      \<and> (f ''AWS_SECRET_ACCESS_KEY'' = Some v \<longrightarrow> AWS_SECRET_ACCESS_KEY st = Some v)
      \<and> (f ''DYNAMODB_TABLE_PREFIX'' = Some v \<longrightarrow> DYNAMODB_TABLE_PREFIX st = v)
      \<and> (f ''USERS_TABLE_NAME'' = Some v \<longrightarrow> USERS_TABLE_NAME st = v)
      \<and> (f ''COGNITO_USER_POOL_ID'' = Some v \<longrightarrow> COGNITO_USER_POOL_ID st = Some v)
      \<and> (f ''COGNITO_CLIENT_ID'' = Some v \<longrightarrow> COGNITO_CLIENT_ID st = Some v)
      \<and> (f ''COGNITO_CLIENT_SECRET'' = Some v \<longrightarrow> COGNITO_CLIENT_SECRET st = Some v)
      \<and> (f ''COGNITO_REGION'' = Some v \<longrightarrow> COGNITO_REGION st = v)
      \<and> (f ''S3_BUCKET_NAME'' = Some v \<longrightarrow> S3_BUCKET_NAME st = Some v)
      \<and> (f ''S3_REGION'' = Some v \<longrightarrow> S3_REGION st = v)
      \<and> (f ''JWT_SECRET_KEY'' = Some v \<longrightarrow> JWT_SECRET_KEY st = v)
      \<and> (f ''JWT_ALGORITHM'' = Some v \<longrightarrow> JWT_ALGORITHM st = v)
      \<and> (f ''ACCESS_TOKEN_EXPIRE_MINUTES'' = Some v
            \<longrightarrow> parse_int v = Some (ACCESS_TOKEN_EXPIRE_MINUTES st))
      \<and> (f ''CACHE_TTL'' = Some v \<longrightarrow> parse_int v = Some (CACHE_TTL st)))"
proof (intro conjI impI)
  assume "f n = Some v"
  then show "lookup (Some f) (snd (load dec (Some f) env)) n = Some v"
    by (simp add: snd_load lookup_after_load_dotenv load_dotenv_file_wins)
next
  assume a: "f ''AWS_REGION'' = Some v \<and> fst (load dec (Some f) env) = Inr st"
  then have "Settings_init dec (Some f) (load_dotenv (Some f) True env) = Inr st"
    by (simp add: fst_load)
  then have "AWS_REGION st =
      str_field (Some f) (load_dotenv (Some f) True env) ''AWS_REGION'' ''us-east-1''"
    by (rule Settings_init_Inr)
  then show "AWS_REGION st = v"
    using a by (simp add: str_field_file_wins)
next
  let ?env = "load_dotenv (Some f) True env"
  assume "fst (load dec (Some f) env) = Inr st"
  then have s: "Settings_init dec (Some f) ?env = Inr st" by (simp add: fst_load)
  note fs = Settings_init_fields [OF s]
  {
    assume "f ''PROJECT_NAME'' = Some v"
    then show "PROJECT_NAME st = v" using fs by (simp only: str_field_file_wins)
  next
    assume "f ''VERSION'' = Some v"
    then show "VERSION st = v" using fs by (simp only: str_field_file_wins)
  next
    assume "f ''DESCRIPTION'' = Some v"
    then show "DESCRIPTION st = v" using fs by (simp only: str_field_file_wins)
  next
    assume "f ''API_V1_STR'' = Some v"
    then show "API_V1_STR st = v" using fs by (simp only: str_field_file_wins)
  next
    assume "f ''ENVIRONMENT'' = Some v"
    then show "ENVIRONMENT st = v" using fs by (simp only: str_field_file_wins)
  next
    assume "f ''ALLOWED_HOSTS'' = Some v"
    then show "hosts_of_raw (prepare_field_value dec v) = Inr (ALLOWED_HOSTS st)"
      using fs by (simp only: hosts_field_file_wins)
  next
    assume "f ''AWS_ACCESS_KEY_ID'' = Some v"
    then show "AWS_ACCESS_KEY_ID st = Some v" using fs by (simp only: opt_field_file_wins)
  next
    assume "f ''AWS_SECRET_ACCESS_KEY'' = Some v"
    then show "AWS_SECRET_ACCESS_KEY st = Some v"
      using fs by (simp only: opt_field_file_wins)
  next
    assume "f ''DYNAMODB_TABLE_PREFIX'' = Some v"
    then show "DYNAMODB_TABLE_PREFIX st = v" using fs by (simp only: str_field_file_wins)
  next
    assume "f ''USERS_TABLE_NAME'' = Some v"
    then show "USERS_TABLE_NAME st = v" using fs by (simp only: str_field_file_wins)
  next
    assume "f ''COGNITO_USER_POOL_ID'' = Some v"
    then show "COGNITO_USER_POOL_ID st = Some v"
      using fs by (simp only: opt_field_file_wins)
  next
    assume "f ''COGNITO_CLIENT_ID'' = Some v"
    then show "COGNITO_CLIENT_ID st = Some v" using fs by (simp only: opt_field_file_wins)
  next
    assume "f ''COGNITO_CLIENT_SECRET'' = Some v"
    then show "COGNITO_CLIENT_SECRET st = Some v"
      using fs by (simp only: opt_field_file_wins)
  next
    assume "f ''COGNITO_REGION'' = Some v"
    then show "COGNITO_REGION st = v" using fs by (simp only: str_field_file_wins)
  next
    assume "f ''S3_BUCKET_NAME'' = Some v"
    then show "S3_BUCKET_NAME st = Some v" using fs by (simp only: opt_field_file_wins)
  next
    assume "f ''S3_REGION'' = Some v"
    then show "S3_REGION st = v" using fs by (simp only: str_field_file_wins)
  next
    assume "f ''JWT_SECRET_KEY'' = Some v"
    then show "JWT_SECRET_KEY st = v" using fs by (simp only: str_field_file_wins)
  next
    assume "f ''JWT_ALGORITHM'' = Some v"
    then show "JWT_ALGORITHM st = v" using fs by (simp only: str_field_file_wins)
  next
    assume a: "f ''ACCESS_TOKEN_EXPIRE_MINUTES'' = Some v"
    have "int_field (Some f) ?env ''ACCESS_TOKEN_EXPIRE_MINUTES'' 30
            = Inr (ACCESS_TOKEN_EXPIRE_MINUTES st)" using fs by blast
    with a show "parse_int v = Some (ACCESS_TOKEN_EXPIRE_MINUTES st)"
      by (rule int_field_file_wins)
  next
    assume a: "f ''CACHE_TTL'' = Some v"
    have "int_field (Some f) ?env ''CACHE_TTL'' 300 = Inr (CACHE_TTL st)"
      using fs by blast
    with a show "parse_int v = Some (CACHE_TTL st)" by (rule int_field_file_wins)
  }
qed

theorem C6_file_wins_witness:
  "[''AWS_REGION'' \<mapsto> ''eu-west-1'', ''S3_BUCKET_NAME'' \<mapsto> ''from-file'',
    ''CACHE_TTL'' \<mapsto> ''60'', ''ALLOWED_HOSTS'' \<mapsto> ''a.example, b.example'']
      ''AWS_REGION'' = Some ''eu-west-1''
   \<and> [''AWS_REGION'' \<mapsto> ''us-west-2'', ''S3_BUCKET_NAME'' \<mapsto> ''from-env'',
      ''CACHE_TTL'' \<mapsto> ''5'', ''ALLOWED_HOSTS'' \<mapsto> ''c.example'']
      ''AWS_REGION'' = Some ''us-west-2''
   \<and> fst (load (\<lambda>_. None)
         (Some [''AWS_REGION'' \<mapsto> ''eu-west-1'', ''S3_BUCKET_NAME'' \<mapsto> ''from-file'',
                ''CACHE_TTL'' \<mapsto> ''60'', ''ALLOWED_HOSTS'' \<mapsto> ''a.example, b.example''])
         [''AWS_REGION'' \<mapsto> ''us-west-2'', ''S3_BUCKET_NAME'' \<mapsto> ''from-env'',
          ''CACHE_TTL'' \<mapsto> ''5'', ''ALLOWED_HOSTS'' \<mapsto> ''c.example''])
       = Inr (default_settings \<lparr>ALLOWED_HOSTS := HostList [''a.example'', ''b.example''],
                AWS_REGION := ''eu-west-1'', S3_BUCKET_NAME := Some ''from-file'',
                CACHE_TTL := 60\<rparr>)
   \<and> AWS_REGION (default_settings \<lparr>ALLOWED_HOSTS := HostList [''a.example'', ''b.example''],
                AWS_REGION := ''eu-west-1'', S3_BUCKET_NAME := Some ''from-file'',
                CACHE_TTL := 60\<rparr>) = ''eu-west-1''
   \<and> S3_BUCKET_NAME (default_settings \<lparr>ALLOWED_HOSTS := HostList [''a.example'', ''b.example''],
                AWS_REGION := ''eu-west-1'', S3_BUCKET_NAME := Some ''from-file'',
                CACHE_TTL := 60\<rparr>) = Some ''from-file''
   \<and> parse_int ''60'' = Some (CACHE_TTL (default_settings
                \<lparr>ALLOWED_HOSTS := HostList [''a.example'', ''b.example''],
                AWS_REGION := ''eu-west-1'', S3_BUCKET_NAME := Some ''from-file'',
                CACHE_TTL := 60\<rparr>))
   \<and> hosts_of_raw (PStr ''a.example, b.example'')
       = Inr (ALLOWED_HOSTS (default_settings
                \<lparr>ALLOWED_HOSTS := HostList [''a.example'', ''b.example''],
                AWS_REGION := ''eu-west-1'', S3_BUCKET_NAME := Some ''from-file'',
                CACHE_TTL := 60\<rparr>))"
proof -
  let ?d = "\<lambda>_ :: string. None :: pyval option"
  let ?f = "[''AWS_REGION'' \<mapsto> ''eu-west-1'', ''S3_BUCKET_NAME'' \<mapsto> ''from-file'',
             ''CACHE_TTL'' \<mapsto> ''60'', ''ALLOWED_HOSTS'' \<mapsto> ''a.example, b.example'']"
  let ?env = "[''AWS_REGION'' \<mapsto> ''us-west-2'', ''S3_BUCKET_NAME'' \<mapsto> ''from-env'',
               ''CACHE_TTL'' \<mapsto> ''5'', ''ALLOWED_HOSTS'' \<mapsto> ''c.example'']"
  let ?st = "default_settings \<lparr>ALLOWED_HOSTS := HostList [''a.example'', ''b.example''],
                AWS_REGION := ''eu-west-1'', S3_BUCKET_NAME := Some ''from-file'',
                CACHE_TTL := 60\<rparr>"
  have f1: "?f ''AWS_REGION'' = Some ''eu-west-1''" by simp
  have f2: "?f ''S3_BUCKET_NAME'' = Some ''from-file''" by simp
  have f3: "?f ''CACHE_TTL'' = Some ''60''" by simp
  have f4: "?f ''ALLOWED_HOSTS'' = Some ''a.example, b.example''" by simp
  have e: "?env ''AWS_REGION'' = Some ''us-west-2''" by simp
  have p: "parse_int ''60'' = Some 60"
    by (simp add: parse_int_def parse_nat_def digit_of_def)
  have h: "hosts_of_raw (PStr ''a.example, b.example'')
             = Inr (HostList [''a.example'', ''b.example''])"
    by (simp add: hosts_of_raw_def str_split_def strip_def isspace_def)
  have env': "load_dotenv (Some ?f) True ?env = ?f"
    by (rule ext) (simp add: load_dotenv_def map_add_def)
  have l: "fst (load ?d (Some ?f) ?env) = Inr ?st"
    unfolding fst_load env'
    by (simp add: Settings_init_def hosts_field_def int_field_def
        str_field_def opt_field_def lookup_def default_settings_def prepare_field_value_def p h)
  have r1: "AWS_REGION ?st = ''eu-west-1''"
    using C6_file_wins [where f = ?f and v = "''eu-west-1''" and dec = ?d and env = ?env
        and st = ?st, THEN conjunct2, THEN conjunct1] f1 l by simp
  have r2: "S3_BUCKET_NAME ?st = Some ''from-file''"
    using C6_file_wins [where f = ?f and v = "''from-file''" and dec = ?d and env = ?env
        and st = ?st, THEN conjunct2, THEN conjunct2, THEN mp, OF l] by simp
  have r3: "parse_int ''60'' = Some (CACHE_TTL ?st)"
    using C6_file_wins [where f = ?f and v = "''60''" and dec = ?d and env = ?env
        and st = ?st, THEN conjunct2, THEN conjunct2, THEN mp, OF l] by simp
  have d: "prepare_field_value ?d ''a.example, b.example'' = PStr ''a.example, b.example''"
    by (simp add: prepare_field_value_def)
  have r4: "hosts_of_raw (PStr ''a.example, b.example'') = Inr (ALLOWED_HOSTS ?st)"
    using C6_file_wins [where f = ?f and v = "''a.example, b.example''" and dec = ?d
        and env = ?env and st = ?st, THEN conjunct2, THEN conjunct2, THEN mp, OF l]
    by (simp add: d)
  show ?thesis using f1 e l r1 r2 r3 r4 by (intro conjI)
qed

text \<open>
  C7. The two integer fields. The environment value is the one in the environment after
  the file has been written into it. The field fails exactly when its variable is set to
  a string that is not a base-10 integer; that failure is the failure of the whole load;
  and when the value is an integer and the load succeeds, the field is that integer.
  In the other direction, a load that fails, while \<open>ALLOWED_HOSTS\<close> fits its type and the
  file names fields only, fails because one of the two integer variables does not parse.
  Every decimal numeral, with or without a minus sign, is a base-10 integer: \<open>"45"\<close>
  gives 45, \<open>"not-a-number"\<close> gives none.
\<close>

theorem C7_integer_fields:
  "name = ''ACCESS_TOKEN_EXPIRE_MINUTES'' \<or> name = ''CACHE_TTL'' \<Longrightarrow>
   env' = snd (load dec fl env) \<Longrightarrow>
     (int_field fl env' name dflt = Inl ConfigError
        \<longleftrightarrow> (\<exists>s. env' name = Some s \<and> parse_int s = None))
   \<and> ((\<exists>s. env' name = Some s \<and> parse_int s = None)
        \<longrightarrow> fst (load dec fl env) = Inl ConfigError)
   \<and> (fst (load dec fl env) = Inl e \<and> hosts_field dec fl env' = Inr h
        \<and> (\<forall>f. fl = Some f \<longrightarrow> dom f \<subseteq> set field_names)
        \<longrightarrow> (\<exists>s. (env' ''ACCESS_TOKEN_EXPIRE_MINUTES'' = Some s \<or> env' ''CACHE_TTL'' = Some s)
                 \<and> parse_int s = None))
   \<and> (env' ''ACCESS_TOKEN_EXPIRE_MINUTES'' = Some s \<and> parse_int s = Some k
        \<and> fst (load dec fl env) = Inr st \<longrightarrow> ACCESS_TOKEN_EXPIRE_MINUTES st = k)
   \<and> (env' ''CACHE_TTL'' = Some s \<and> parse_int s = Some k
        \<and> fst (load dec fl env) = Inr st \<longrightarrow> CACHE_TTL st = k)
   \<and> parse_int (decimal n) = Some (int n)
   \<and> parse_int (CHR ''-'' # decimal n) = Some (- int n)
   \<and> parse_int ''45'' = Some 45
   \<and> parse_int ''not-a-number'' = None"
proof -
  assume nm: "name = ''ACCESS_TOKEN_EXPIRE_MINUTES'' \<or> name = ''CACHE_TTL''"
  assume env': "env' = snd (load dec fl env)"
  have lk: "lookup fl env' x = env' x" for x
    by (simp add: env' snd_load lookup_after_load_dotenv)
  have ld: "fst (load dec fl env) = Settings_init dec fl env'"
    by (simp add: env' snd_load fst_load)
  have 1: "int_field fl env' name dflt = Inl ConfigError
        \<longleftrightarrow> (\<exists>s. env' name = Some s \<and> parse_int s = None)"
    by (simp add: int_field_fails_iff lk)
  have 2: "fst (load dec fl env) = Inl ConfigError"
    if "\<exists>s. env' name = Some s \<and> parse_int s = None"
  proof -
    have "int_field fl env' name 30 = Inl ConfigError
        \<and> int_field fl env' name 300 = Inl ConfigError"
      using that by (simp add: int_field_fails_iff lk)
    then have "\<exists>e. Settings_init dec fl env' = Inl e"
      using nm by (subst Settings_init_fails_iff) auto
    then show ?thesis using ld error_only by metis
  qed
  have 3: "\<exists>s. (env' ''ACCESS_TOKEN_EXPIRE_MINUTES'' = Some s \<or> env' ''CACHE_TTL'' = Some s)
                 \<and> parse_int s = None"
    if "fst (load dec fl env) = Inl e \<and> hosts_field dec fl env' = Inr h
        \<and> (\<forall>f. fl = Some f \<longrightarrow> dom f \<subseteq> set field_names)"
  proof -
    have "\<exists>e. Settings_init dec fl env' = Inl e" using that ld by auto
    then have "(\<exists>e. int_field fl env' ''ACCESS_TOKEN_EXPIRE_MINUTES'' 30 = Inl e)
             \<or> (\<exists>e. int_field fl env' ''CACHE_TTL'' 300 = Inl e)"
      using that by (subst (asm) Settings_init_fails_iff) auto
    then have "int_field fl env' ''ACCESS_TOKEN_EXPIRE_MINUTES'' 30 = Inl ConfigError
             \<or> int_field fl env' ''CACHE_TTL'' 300 = Inl ConfigError"
      using error_only by metis
    then show ?thesis by (auto simp: int_field_fails_iff lk)
  qed
  have 4: "ACCESS_TOKEN_EXPIRE_MINUTES st = k"
    if "env' ''ACCESS_TOKEN_EXPIRE_MINUTES'' = Some s \<and> parse_int s = Some k
        \<and> fst (load dec fl env) = Inr st"
  proof -
    have "int_field fl env' ''ACCESS_TOKEN_EXPIRE_MINUTES'' 30
            = Inr (ACCESS_TOKEN_EXPIRE_MINUTES st)"
      using that ld Settings_init_Inr(2) [of dec fl env' st] by simp
    moreover have "int_field fl env' ''ACCESS_TOKEN_EXPIRE_MINUTES'' 30 = Inr k"
      using that by (simp add: int_field_value lk)
    ultimately show ?thesis by simp
  qed
  have 5: "CACHE_TTL st = k"
    if "env' ''CACHE_TTL'' = Some s \<and> parse_int s = Some k \<and> fst (load dec fl env) = Inr st"
  proof -
    have "int_field fl env' ''CACHE_TTL'' 300 = Inr (CACHE_TTL st)"
      using that ld Settings_init_Inr(3) [of dec fl env' st] by simp
    moreover have "int_field fl env' ''CACHE_TTL'' 300 = Inr k"
      using that by (simp add: int_field_value lk)
    ultimately show ?thesis by simp
  qed
  show ?thesis
    using 1 2 3 4 5 parse_int_decimal parse_int_neg_decimal parse_int_45
      parse_int_not_a_number by blast
qed

theorem C7_integer_fields_witness:
  "fst (load (\<lambda>_. None) None [''ACCESS_TOKEN_EXPIRE_MINUTES'' \<mapsto> ''not-a-number''])
     = Inl ConfigError
   \<and> parse_int ''not-a-number'' = None
   \<and> fst (load (\<lambda>_. None) None [''ACCESS_TOKEN_EXPIRE_MINUTES'' \<mapsto> ''45''])
       = Inr (default_settings \<lparr>ACCESS_TOKEN_EXPIRE_MINUTES := 45\<rparr>)
   \<and> parse_int ''45'' = Some 45
   \<and> ACCESS_TOKEN_EXPIRE_MINUTES (default_settings \<lparr>ACCESS_TOKEN_EXPIRE_MINUTES := 45\<rparr>) = 45
   \<and> fst (load (\<lambda>_. None) (Some [''CACHE_TTL'' \<mapsto> ''5m'']) [''CACHE_TTL'' \<mapsto> ''60''])
       = Inl ConfigError"
proof -
  let ?A = "''ACCESS_TOKEN_EXPIRE_MINUTES''"
  let ?d = "\<lambda>_ :: string. None :: pyval option"
  let ?st = "default_settings \<lparr>ACCESS_TOKEN_EXPIRE_MINUTES := 45\<rparr>"
  have p1: "parse_int ''not-a-number'' = None"
    by (simp add: parse_int_def parse_nat_def digit_of_def)
  have p2: "parse_int ''45'' = Some 45"
    by (simp add: parse_int_def parse_nat_def digit_of_def)
  have p3: "parse_int ''5m'' = None"
    by (simp add: parse_int_def parse_nat_def digit_of_def)
  have e1: "snd (load ?d None [?A \<mapsto> ''not-a-number'']) ?A = Some ''not-a-number''"
    by (simp add: snd_load load_dotenv_def)
  have e2: "snd (load ?d None [?A \<mapsto> ''45'']) ?A = Some ''45''"
    by (simp add: snd_load load_dotenv_def)
  have e3: "snd (load ?d (Some [''CACHE_TTL'' \<mapsto> ''5m'']) [''CACHE_TTL'' \<mapsto> ''60''])
              ''CACHE_TTL'' = Some ''5m''"
    by (simp add: snd_load load_dotenv_def)
  have l2: "fst (load ?d None [?A \<mapsto> ''45'']) = Inr ?st"
    by (simp add: fst_load load_dotenv_def Settings_init_def hosts_field_def int_field_def
        str_field_def opt_field_def lookup_def default_settings_def p2)
  have n1: "?A = ''ACCESS_TOKEN_EXPIRE_MINUTES'' \<or> ?A = ''CACHE_TTL''" by simp
  have n2: "''CACHE_TTL'' = ''ACCESS_TOKEN_EXPIRE_MINUTES'' \<or> ''CACHE_TTL'' = ''CACHE_TTL''"
    by simp
  have a: "fst (load ?d None [?A \<mapsto> ''not-a-number'']) = Inl ConfigError"
    using C7_integer_fields [where dec = ?d and fl = None
        and env = "[?A \<mapsto> ''not-a-number'']", OF n1 refl] e1 p1
    by blast
  have b: "ACCESS_TOKEN_EXPIRE_MINUTES ?st = 45"
    using C7_integer_fields [where dec = ?d and fl = None and env = "[?A \<mapsto> ''45'']"
        and s = "''45''" and k = 45 and st = ?st, OF n1 refl]
      e2 p2 l2 by blast
  have c: "fst (load ?d (Some [''CACHE_TTL'' \<mapsto> ''5m'']) [''CACHE_TTL'' \<mapsto> ''60''])
             = Inl ConfigError"
    using C7_integer_fields [where dec = ?d and fl = "Some [''CACHE_TTL'' \<mapsto> ''5m'']"
        and env = "[''CACHE_TTL'' \<mapsto> ''60'']", OF n2 refl] e3 p3
    by blast
  show ?thesis using a b c p1 p2 l2 by simp
qed

text \<open>
  C8. Loading is a function of the decoder, the file and the environment, and it leaves
  the environment in a state where loading again changes nothing: a second load, run in
  the environment that the first one left, returns the same result (the same failure or
  the same settings, field by field) and the same environment. Building the settings
  again without reading the file again gives that result too.
\<close>

theorem C8_load_twice:
  "load dec fl (snd (load dec fl env)) = load dec fl env
   \<and> Settings_init dec fl (snd (load dec fl env)) = fst (load dec fl env)"
  by (simp add: load_def Let_def load_dotenv_idem)

theorem C8_load_twice_witness:
  "load (\<lambda>_. None) (Some [''CACHE_TTL'' \<mapsto> ''60''])
      (snd (load (\<lambda>_. None) (Some [''CACHE_TTL'' \<mapsto> ''60'']) [''CACHE_TTL'' \<mapsto> ''5'']))
     = load (\<lambda>_. None) (Some [''CACHE_TTL'' \<mapsto> ''60'']) [''CACHE_TTL'' \<mapsto> ''5'']
   \<and> snd (load (\<lambda>_. None) (Some [''CACHE_TTL'' \<mapsto> ''60'']) [''CACHE_TTL'' \<mapsto> ''5''])
       ''CACHE_TTL'' = Some ''60''"
proof -
  let ?d = "\<lambda>_ :: string. None :: pyval option"
  have a: "load ?d (Some [''CACHE_TTL'' \<mapsto> ''60''])
      (snd (load ?d (Some [''CACHE_TTL'' \<mapsto> ''60'']) [''CACHE_TTL'' \<mapsto> ''5'']))
     = load ?d (Some [''CACHE_TTL'' \<mapsto> ''60'']) [''CACHE_TTL'' \<mapsto> ''5'']"
    using C8_load_twice [where dec = ?d and fl = "Some [''CACHE_TTL'' \<mapsto> ''60'']"
        and env = "[''CACHE_TTL'' \<mapsto> ''5'']"] by blast
  have b: "snd (load ?d (Some [''CACHE_TTL'' \<mapsto> ''60'']) [''CACHE_TTL'' \<mapsto> ''5''])
       ''CACHE_TTL'' = Some ''60''"
    by (simp add: snd_load load_dotenv_def)
  show ?thesis using a b by blast
qed

text \<open>
  C10. A string made of commas and whitespace only, the empty string among them, gives
  the empty list and not the default \<open>["*"]\<close>: every piece is empty after trimming. The
  empty list fits the type of the field, so settings built from such a value (one that
  does not decode as structured data) have an empty allow-list.
\<close>

lemma only_commas_and_whitespace:
  assumes "list_all (\<lambda>c. c = CHR '','' \<or> isspace c) s"
  shows "assemble_cors_origins (PStr s) = PList []"
proof -
  have all: "\<forall>c\<in>set s. c = CHR '','' \<or> isspace c"
    using assms by (simp only: list_all_iff)
  have "strip p = []" if "p \<in> set (str_split s (CHR '',''))" for p
  proof -
    have sub: "set p \<subseteq> set s" using that by (rule str_split_subset)
    have nos: "CHR '','' \<notin> set p" using that by (rule str_split_nosep)
    have "\<forall>c\<in>set p. isspace c"
    proof
      fix c
      assume c: "c \<in> set p"
      then have "c = CHR '','' \<or> isspace c" using sub all by blast
      moreover have "c \<noteq> CHR '',''" using c nos by blast
      ultimately show "isspace c" by blast
    qed
    then have "list_all isspace p" by (simp only: list_all_iff)
    then show ?thesis by (rule strip_all_space)
  qed
  then have "filter (\<lambda>p. p \<noteq> []) (map strip (str_split s (CHR '',''))) = []"
    by (simp add: filter_empty_conv)
  then show ?thesis by (simp only: assemble_str list.map)
qed

theorem C10_only_commas_and_whitespace:
  "list_all (\<lambda>c. c = CHR '','' \<or> isspace c) s \<Longrightarrow>
     assemble_cors_origins (PStr s) = PList []
   \<and> hosts_of_raw (PStr s) = Inr (HostList [])
   \<and> (dec s = None \<and> snd (load dec fl env) ''ALLOWED_HOSTS'' = Some s
        \<and> fst (load dec fl env) = Inr st \<longrightarrow> ALLOWED_HOSTS st = HostList [])"
proof -
  assume a: "list_all (\<lambda>c. c = CHR '','' \<or> isspace c) s"
  have 1: "assemble_cors_origins (PStr s) = PList []"
    using a by (rule only_commas_and_whitespace)
  have 2: "hosts_of_raw (PStr s) = Inr (HostList [])"
    by (simp only: hosts_of_raw_def 1) simp
  have 3: "ALLOWED_HOSTS st = HostList []"
    if "dec s = None \<and> snd (load dec fl env) ''ALLOWED_HOSTS'' = Some s
        \<and> fst (load dec fl env) = Inr st"
  proof -
    have "hosts_field dec fl (load_dotenv fl True env) = Inr (ALLOWED_HOSTS st)"
      using that Settings_init_Inr(1) [of dec fl "load_dotenv fl True env" st]
      by (simp add: fst_load)
    moreover have "hosts_field dec fl (load_dotenv fl True env) = hosts_of_raw (PStr s)"
      using that by (simp add: snd_load hosts_field_after_load prepare_field_value_def)
    ultimately show ?thesis using 2 by simp
  qed
  show ?thesis using 1 2 3 by blast
qed

theorem C10_only_commas_and_whitespace_witness:
  "list_all (\<lambda>c. c = CHR '','' \<or> isspace c) '' , ,,''
   \<and> assemble_cors_origins (PStr '' , ,,'') = PList []
   \<and> assemble_cors_origins (PStr '''') = PList []
   \<and> fst (load (\<lambda>_. None) None [''ALLOWED_HOSTS'' \<mapsto> '' , ,,''])
       = Inr (default_settings \<lparr>ALLOWED_HOSTS := HostList []\<rparr>)
   \<and> ALLOWED_HOSTS (default_settings \<lparr>ALLOWED_HOSTS := HostList []\<rparr>) = HostList []"
proof -
  let ?d = "\<lambda>_ :: string. None :: pyval option"
  let ?env = "[''ALLOWED_HOSTS'' \<mapsto> '' , ,,'']"
  let ?st = "default_settings \<lparr>ALLOWED_HOSTS := HostList []\<rparr>"
  have h: "list_all (\<lambda>c. c = CHR '','' \<or> isspace c) '' , ,,''"
    by (simp add: isspace_def)
  have h0: "list_all (\<lambda>c. c = CHR '','' \<or> isspace c) ''''" by simp
  note t = C10_only_commas_and_whitespace
    [OF h, where dec = ?d and fl = None and env = ?env and st = ?st]
  note t0 = C10_only_commas_and_whitespace
    [OF h0, where dec = ?d and fl = None and env = ?env and st = ?st]
  have a: "assemble_cors_origins (PStr '' , ,,'') = PList []" using t by blast
  have a0: "assemble_cors_origins (PStr '''') = PList []" using t0 by blast
  have r: "hosts_of_raw (PStr '' , ,,'') = Inr (HostList [])" using t by blast
  have e: "snd (load ?d None ?env) ''ALLOWED_HOSTS'' = Some '' , ,,''"
    by (simp add: snd_load load_dotenv_def)
  have l: "fst (load ?d None ?env) = Inr ?st"
    by (simp add: fst_load load_dotenv_def Settings_init_def hosts_field_def int_field_def
        str_field_def opt_field_def lookup_def default_settings_def prepare_field_value_def r)
  have f: "ALLOWED_HOSTS ?st = HostList []" using t e l by blast
  show ?thesis using h a a0 l f by blast
qed

section \<open>The field \<open>ALLOWED_HOSTS\<close> of the settings\<close>

lemma those_as_str: "those (map as_str (map PStr xs)) = Some xs"
  by (induction xs) auto

lemma check_hosts_strs: "check_hosts (PList (map PStr xs)) = Inr (HostList xs)"
  by (simp only: check_hosts.simps those_as_str) simp

lemma hosts_of_raw_str:
  "hosts_of_raw (PStr s) =
     Inr (HostList (filter (\<lambda>p. p \<noteq> []) (map strip (str_split s (CHR '','')))))"
  by (simp only: hosts_of_raw_def assemble_str check_hosts_strs)

lemma hosts_of_raw_list:
  "hosts_of_raw (PList l) =
     (case those (map as_str l) of None \<Rightarrow> Inl ConfigError | Some xs \<Rightarrow> Inr (HostList xs))"
  by (simp add: hosts_of_raw_def)

lemma hosts_of_raw_other:
  "(\<forall>s. v \<noteq> PStr s) \<Longrightarrow> (\<forall>l. v \<noteq> PList l) \<Longrightarrow> hosts_of_raw v = Inr (HostList [''*''])"
  by (cases v) (simp_all add: hosts_of_raw_def)

lemma hosts_of_raw_is_list: "hosts_of_raw v = Inr h \<Longrightarrow> \<exists>xs. h = HostList xs"
proof (cases v)
  case (PStr s)
  assume "hosts_of_raw v = Inr h"
  then show ?thesis using PStr by (auto simp: hosts_of_raw_str)
next
  case (PList l)
  assume "hosts_of_raw v = Inr h"
  then show ?thesis using PList by (auto simp: hosts_of_raw_list split: option.splits)
qed (simp_all add: hosts_of_raw_def, auto)

lemma hosts_of_raw_nonlist:
  assumes "\<forall>l. v \<noteq> PList l"
  shows "\<exists>h. hosts_of_raw v = Inr h \<and> nonempty_host_list h"
proof (cases "\<exists>s. v = PStr s")
  case True
  then obtain s where "v = PStr s" by blast
  then show ?thesis
    by (simp add: hosts_of_raw_str nonempty_host_list_def list_all_iff)
next
  case False
  then have "hosts_of_raw v = Inr (HostList [''*''])"
    using assms by (simp add: hosts_of_raw_other)
  then show ?thesis by (simp add: nonempty_host_list_def)
qed

text \<open>
  C2, as the code has it. Whatever raw value is given, a field that is built is a list
  of strings and never a raw string. Its elements are non-empty when the raw value is
  not a list: a string is split, trimmed and filtered, any other shape gives \<open>["*"]\<close>,
  and an unset variable leaves the default \<open>["*"]\<close>. A raw list of strings is kept as it
  is, so its elements are whatever was given.
\<close>

theorem C2_hosts_always_list:
  "(hosts_of_raw v = Inr h \<longrightarrow> (\<exists>xs. h = HostList xs))
   \<and> ((\<forall>l. v \<noteq> PList l) \<longrightarrow> (\<exists>h. hosts_of_raw v = Inr h \<and> nonempty_host_list h))
   \<and> hosts_of_raw (PList (map PStr xs)) = Inr (HostList xs)
   \<and> (fst (load dec fl env) = Inr st \<longrightarrow> (\<exists>xs. ALLOWED_HOSTS st = HostList xs))
   \<and> (fst (load dec fl env) = Inr st
        \<and> (\<forall>s l. snd (load dec fl env) ''ALLOWED_HOSTS'' = Some s
                  \<longrightarrow> prepare_field_value dec s \<noteq> PList l)
        \<longrightarrow> nonempty_host_list (ALLOWED_HOSTS st))"
proof -
  let ?env = "load_dotenv fl True env"
  have 3: "hosts_of_raw (PList (map PStr xs)) = Inr (HostList xs)"
    by (simp only: hosts_of_raw_def assemble_cors_origins.simps check_hosts_strs)
  have hf: "hosts_field dec fl ?env = Inr (ALLOWED_HOSTS st)" if "fst (load dec fl env) = Inr st"
    using that Settings_init_Inr(1) [of dec fl ?env st] by (simp add: fst_load)
  have cases_env: "hosts_field dec fl ?env =
      (case ?env ''ALLOWED_HOSTS'' of None \<Rightarrow> Inr (HostList [''*''])
       | Some s \<Rightarrow> hosts_of_raw (prepare_field_value dec s))"
    by (simp add: hosts_field_def lookup_after_load_dotenv)
  have 4: "\<exists>xs. ALLOWED_HOSTS st = HostList xs" if a: "fst (load dec fl env) = Inr st"
  proof (cases "?env ''ALLOWED_HOSTS''")
    case None
    then have "ALLOWED_HOSTS st = HostList [''*'']" using hf [OF a] cases_env by simp
    then show ?thesis by blast
  next
    case (Some s)
    then have "hosts_of_raw (prepare_field_value dec s) = Inr (ALLOWED_HOSTS st)"
      using hf [OF a] cases_env by simp
    then show ?thesis by (rule hosts_of_raw_is_list)
  qed
  have 5: "nonempty_host_list (ALLOWED_HOSTS st)"
    if a: "fst (load dec fl env) = Inr st
        \<and> (\<forall>s l. snd (load dec fl env) ''ALLOWED_HOSTS'' = Some s
                  \<longrightarrow> prepare_field_value dec s \<noteq> PList l)"
  proof (cases "?env ''ALLOWED_HOSTS''")
    case None
    then have "ALLOWED_HOSTS st = HostList [''*'']" using hf a cases_env by simp
    then show ?thesis by (simp add: nonempty_host_list_def)
  next
    case (Some s)
    then have r: "hosts_of_raw (prepare_field_value dec s) = Inr (ALLOWED_HOSTS st)"
      using hf a cases_env by simp
    have "\<forall>l. prepare_field_value dec s \<noteq> PList l" using a Some by (simp add: snd_load)
    then obtain h where "hosts_of_raw (prepare_field_value dec s) = Inr h" "nonempty_host_list h"
      using hosts_of_raw_nonlist by blast
    then show ?thesis using r by simp
  qed
  show ?thesis using hosts_of_raw_is_list hosts_of_raw_nonlist 3 4 5 by blast
qed

theorem C2_hosts_always_list_witness:
  "hosts_of_raw (PStr ''a, ,b'') = Inr (HostList [''a'', ''b''])
   \<and> nonempty_host_list (HostList [''a'', ''b''])
   \<and> hosts_of_raw (PList (map PStr ['''', ''x''])) = Inr (HostList ['''', ''x''])
   \<and> fst (load (\<lambda>_. None) None [''ALLOWED_HOSTS'' \<mapsto> ''a, ,b''])
       = Inr (default_settings \<lparr>ALLOWED_HOSTS := HostList [''a'', ''b'']\<rparr>)
   \<and> nonempty_host_list (ALLOWED_HOSTS (default_settings \<lparr>ALLOWED_HOSTS := HostList [''a'', ''b'']\<rparr>))"
proof -
  let ?d = "\<lambda>_ :: string. None :: pyval option"
  let ?env = "[''ALLOWED_HOSTS'' \<mapsto> ''a, ,b'']"
  let ?st = "default_settings \<lparr>ALLOWED_HOSTS := HostList [''a'', ''b'']\<rparr>"
  note t = C2_hosts_always_list [where v = "PStr ''a, ,b''" and h = "HostList [''a'', ''b'']"
      and xs = "['''', ''x'']" and dec = ?d and fl = None and env = ?env and st = ?st]
  have r: "hosts_of_raw (PStr ''a, ,b'') = Inr (HostList [''a'', ''b''])"
    by (simp add: hosts_of_raw_def str_split_def strip_def isspace_def)
  have n: "nonempty_host_list (HostList [''a'', ''b''])"
    by (simp add: nonempty_host_list_def)
  have x: "hosts_of_raw (PList (map PStr ['''', ''x''])) = Inr (HostList ['''', ''x''])"
    using t by blast
  have l: "fst (load ?d None ?env) = Inr ?st"
    by (simp add: fst_load load_dotenv_def Settings_init_def hosts_field_def int_field_def
        str_field_def opt_field_def lookup_def default_settings_def prepare_field_value_def r)
  have p: "\<forall>s l. snd (load ?d None ?env) ''ALLOWED_HOSTS'' = Some s
                  \<longrightarrow> prepare_field_value ?d s \<noteq> PList l"
    by (simp add: prepare_field_value_def)
  have f: "nonempty_host_list (ALLOWED_HOSTS ?st)" using t l p by blast
  show ?thesis using r n x l f by blast
qed

text \<open>
  C2 as the specification states it (every element non-empty, also when a list is passed
  through) fails: the raw list that holds one empty string is kept as it is.
\<close>

theorem C2_counterexample:
  "hosts_of_raw (PList [PStr '''']) = Inr (HostList [''''])
   \<and> \<not> nonempty_host_list (HostList [''''])"
  by (simp add: hosts_of_raw_def nonempty_host_list_def)

end
